theory Spec2Isabelle
  imports Main
begin

section \<open>Data model\<close>

text \<open>
  The types of \<^verbatim>\<open>src/App.tsx\<close> (section "TYPER"). A JavaScript number that holds a count
  of seconds, minutes or milliseconds is an \<^typ>\<open>int\<close>; an optional field is an
  \<^typ>\<open>'a option\<close>. Two interfaces of the source share the field names \<^verbatim>\<open>id\<close> and
  \<^verbatim>\<open>color\<close>: the fields of \<^verbatim>\<open>Habit\<close> are \<open>hid\<close> and \<open>color\<close>, those of \<^verbatim>\<open>HistoryItem\<close>
  are \<open>item_id\<close> and \<open>item_color\<close>.
\<close>

datatype Mode = Stopwatch | Timer

text \<open>The type \<^verbatim>\<open>Mode | 'manual' | 'adjustment'\<close> of a history item's \<^verbatim>\<open>mode\<close>.\<close>

datatype LogMode = Timed Mode | Manual | Adjustment

datatype GoalPeriod = Daily | Weekly | Monthly | Custom

record Habit =
  hid :: string
  name :: string
  category :: "string option"
  color :: string
  selectedMode :: Mode
  timerDuration :: int
  timerInput :: string
  elapsed :: int
  isRunning :: bool
  streak :: int
  lastLogDate :: string

record HistoryItem =
  item_id :: string
  habitName :: string
  duration :: int
  mode :: LogMode
  timestampStr :: string
  timestampMs :: int
  item_color :: string

record Goal =
  habitId :: string
  targetMinutes :: int
  period :: GoalPeriod
  startDate :: "string option"
  endDate :: "string option"

text \<open>
  The state the engine works on: the three \<^verbatim>\<open>useState\<close> cells \<^verbatim>\<open>habits\<close>, \<^verbatim>\<open>history\<close>,
  \<^verbatim>\<open>goals\<close> and the ref \<^verbatim>\<open>isDraggingRef.current\<close>. A functional update
  \<^verbatim>\<open>setX(prev => f(prev))\<close> is the assignment \<open>X := f X\<close>; updates take effect in the
  order in which the source issues them, each updater running once.
\<close>

record AppState =
  habits :: "Habit list"
  history :: "HistoryItem list"
  goals :: "Goal list"
  isDragging :: bool

section \<open>The platform: clock, random numbers, dates\<close>

text \<open>
  What a handler reads from the platform while it runs: \<open>now\<close> is \<^verbatim>\<open>Date.now()\<close> (epoch
  milliseconds, read once per handler), \<open>utcOffset\<close> the device's zone as local time minus
  UTC in milliseconds (a zone at a fixed offset), \<open>randomText\<close> the text of
  \<^verbatim>\<open>Math.random()\<close>, \<open>random1000\<close> the value of \<^verbatim>\<open>Math.floor(Math.random() * 1000)\<close>, and
  \<open>toLocaleString\<close> the locale's rendering of an instant.
\<close>

record Env =
  now :: int
  utcOffset :: int
  randomText :: string
  random1000 :: int
  toLocaleString :: "int \<Rightarrow> string"

definition oneDay :: int where
  "oneDay = 24 * 60 * 60 * 1000"

text \<open>Days since 1970-01-01 of a date of the proleptic Gregorian calendar, and back.\<close>

definition days_from_civil :: "int \<Rightarrow> int \<Rightarrow> int \<Rightarrow> int" where
  "days_from_civil y m d =
     (let y' = (if m \<le> 2 then y - 1 else y);
          era = y' div 400;
          yoe = y' - era * 400;
          doy = (153 * (if m > 2 then m - 3 else m + 9) + 2) div 5 + d - 1;
          doe = yoe * 365 + yoe div 4 - yoe div 100 + doy
      in era * 146097 + doe - 719468)"

definition civil_from_days :: "int \<Rightarrow> int \<times> int \<times> int" where
  "civil_from_days z =
     (let z' = z + 719468;
          era = z' div 146097;
          doe = z' - era * 146097;
          yoe = (doe - doe div 1460 + doe div 36524 - doe div 146096) div 365;
          doy = doe - (365 * yoe + yoe div 4 - yoe div 100);
          mp = (5 * doy + 2) div 153;
          d = doy - (153 * mp + 2) div 5 + 1;
          m = (if mp < 10 then mp + 3 else mp - 9)
      in (if m \<le> 2 then yoe + era * 400 + 1 else yoe + era * 400, m, d))"

text \<open>\<^verbatim>\<open>Number.prototype.toString\<close> on an integer, and \<^verbatim>\<open>padStart(2, '0')\<close>.\<close>

fun string_of_nat :: "nat \<Rightarrow> string" where
  "string_of_nat n =
     (if n < 10 then [''0123456789'' ! n]
      else string_of_nat (n div 10) @ [''0123456789'' ! (n mod 10)])"

definition string_of_int :: "int \<Rightarrow> string" where
  "string_of_int i =
     (if i < 0 then CHR ''-'' # string_of_nat (nat (- i)) else string_of_nat (nat i))"

definition padStart2 :: "string \<Rightarrow> string" where
  "padStart2 s = replicate (2 - length s) CHR ''0'' @ s"

text \<open>
  \<^verbatim>\<open>getTodayString\<close>: the local calendar date of \<^verbatim>\<open>new Date()\<close> as \<^verbatim>\<open>YYYY-MM-DD\<close>, from
  \<^verbatim>\<open>getFullYear()\<close>, \<^verbatim>\<open>getMonth() + 1\<close> and \<^verbatim>\<open>getDate()\<close>.
\<close>

definition getTodayString :: "Env \<Rightarrow> string" where
  "getTodayString env =
     (case civil_from_days ((now env + utcOffset env) div oneDay) of
        (y, m, d) \<Rightarrow>
          string_of_int y @ ''-'' @ padStart2 (string_of_int m) @ ''-'' @ padStart2 (string_of_int d))"

section \<open>The session ledger and the streak\<close>

text \<open>
  \<^verbatim>\<open>saveSession(name, duration, mode, color, timestamp?)\<close>. The expression
  \<^verbatim>\<open>timestamp || Date.now()\<close> takes the clock when the argument is absent or 0.
\<close>

definition orNow :: "Env \<Rightarrow> int option \<Rightarrow> int" where
  "orNow env timestamp =
     (case timestamp of None \<Rightarrow> now env | Some t \<Rightarrow> (if t = 0 then now env else t))"

definition bumpStreak :: "string \<Rightarrow> int \<Rightarrow> string \<Rightarrow> Habit \<Rightarrow> Habit" where
  "bumpStreak nm dur dateStr h =
     (if name h = nm \<and> dur > 0
      then h\<lparr>streak := (if lastLogDate h = dateStr then streak h else streak h + 1),
             lastLogDate := dateStr\<rparr>
      else h)"

definition saveSession ::
  "Env \<Rightarrow> string \<Rightarrow> int \<Rightarrow> LogMode \<Rightarrow> string \<Rightarrow> int option \<Rightarrow> AppState \<Rightarrow> AppState" where
  "saveSession env nm dur md col timestamp st =
     (if dur = 0 then st
      else
        let dateStr = getTodayString env
        in st\<lparr>habits := map (bumpStreak nm dur dateStr) (habits st),
               history :=
                 \<lparr>item_id = string_of_int (now env) @ randomText env,
                  habitName = nm,
                  duration = dur,
                  mode = md,
                  timestampStr = toLocaleString env (orNow env timestamp),
                  timestampMs = orNow env timestamp,
                  item_color = col\<rparr> # history st\<rparr>)"

section \<open>The timer\<close>

text \<open>The body of the \<^verbatim>\<open>setInterval\<close> callback of the timer effect, run once per second.\<close>

definition tickHabit :: "Habit \<Rightarrow> Habit" where
  "tickHabit habit =
     (if isRunning habit then
        (if selectedMode habit = Timer then
           (let totalTime = elapsed habit + 1
            in if totalTime \<ge> timerDuration habit
               then habit\<lparr>isRunning := False, elapsed := 0\<rparr>
               else habit\<lparr>elapsed := totalTime\<rparr>)
         else habit\<lparr>elapsed := elapsed habit + 1\<rparr>)
      else habit)"

definition tick :: "AppState \<Rightarrow> AppState" where
  "tick st =
     (if isDragging st then st
      else if \<not> list_ex isRunning (habits st) then st
      else st\<lparr>habits := map tickHabit (habits st)\<rparr>)"

section \<open>Text input\<close>

text \<open>
  \<^verbatim>\<open>parseInt(s)\<close> with no radix: leading white space is skipped, a sign is read, a
  prefix \<^verbatim>\<open>0x\<close> selects radix 16, and the longest prefix of digits is the value; with no
  digit the result is \<^verbatim>\<open>NaN\<close>, here \<open>None\<close>. A text is a list of bytes, and the white
  space is that of ASCII.
\<close>

definition isSpace :: "char \<Rightarrow> bool" where
  "isSpace c = (c \<in> set [CHR '' '', CHR 0x09, CHR 0x0A, CHR 0x0B, CHR 0x0C, CHR 0x0D])"

definition digitVal :: "char \<Rightarrow> nat option" where
  "digitVal c =
     (let n = (of_char c :: nat)
      in if 48 \<le> n \<and> n \<le> 57 then Some (n - 48)
         else if 97 \<le> n \<and> n \<le> 102 then Some (n - 87)
         else if 65 \<le> n \<and> n \<le> 70 then Some (n - 55)
         else None)"

definition isDigitOf :: "nat \<Rightarrow> char \<Rightarrow> bool" where
  "isDigitOf radix c = (case digitVal c of None \<Rightarrow> False | Some v \<Rightarrow> v < radix)"

definition natOfDigits :: "nat \<Rightarrow> string \<Rightarrow> nat" where
  "natOfDigits radix ds =
     foldl (\<lambda>acc c. acc * radix + (case digitVal c of None \<Rightarrow> 0 | Some v \<Rightarrow> v)) 0 ds"

definition parseUnsigned :: "string \<Rightarrow> nat option" where
  "parseUnsigned s =
     (let hex = (take 2 s = ''0x'' \<or> take 2 s = ''0X'');
          radix = (if hex then 16 else 10);
          ds = takeWhile (isDigitOf radix) (if hex then drop 2 s else s)
      in if ds = [] then None else Some (natOfDigits radix ds))"

definition parseInt :: "string \<Rightarrow> int option" where
  "parseInt s =
     (case dropWhile isSpace s of
        [] \<Rightarrow> None
      | c # r \<Rightarrow>
          if c = CHR ''-'' then map_option (\<lambda>n. - int n) (parseUnsigned r)
          else if c = CHR ''+'' then map_option int (parseUnsigned r)
          else map_option int (parseUnsigned (c # r)))"

text \<open>\<^verbatim>\<open>String.prototype.trim\<close>, and \<^verbatim>\<open>toString\<close> on a number that may be \<^verbatim>\<open>NaN\<close>.\<close>

definition trim :: "string \<Rightarrow> string" where
  "trim s = rev (dropWhile isSpace (rev (dropWhile isSpace s)))"

definition numToString :: "int option \<Rightarrow> string" where
  "numToString v = (case v of None \<Rightarrow> ''NaN'' | Some n \<Rightarrow> string_of_int n)"

section \<open>Dates of the platform\<close>

text \<open>
  \<^verbatim>\<open>new Date().setHours(0,0,0,0)\<close>: the instant of the local midnight that opens
  today.
\<close>

definition startOfToday :: "Env \<Rightarrow> int" where
  "startOfToday env = now env - (now env + utcOffset env) mod oneDay"

text \<open>
  \<^verbatim>\<open>new Date(y, m - 1, d).getTime()\<close>: the instant of the LOCAL midnight of a date. The
  constructor reads a year from 0 to 99 as 1900 plus it and carries a month outside
  0..11 and a day outside the month over into the neighbouring months and years.
\<close>

definition localDateMs :: "Env \<Rightarrow> int \<Rightarrow> int \<Rightarrow> int \<Rightarrow> int" where
  "localDateMs env y m d =
     (let yr = (if 0 \<le> y \<and> y \<le> 99 then 1900 + y else y);
          mon = m - 1;
          dayNo = days_from_civil (yr + mon div 12) (mon mod 12 + 1) 1 + d - 1
      in dayNo * oneDay - utcOffset env)"

text \<open>The regular expression \<^verbatim>\<open>/^\d{4}-\d{2}-\d{2}$/\<close>.\<close>

definition isDecimal :: "char \<Rightarrow> bool" where
  "isDecimal c = isDigitOf 10 c"

definition datePattern :: "string \<Rightarrow> bool" where
  "datePattern s =
     (length s = 10 \<and> list_all isDecimal (take 4 s) \<and> s ! 4 = CHR ''-'' \<and>
      list_all isDecimal (take 2 (drop 5 s)) \<and> s ! 7 = CHR ''-'' \<and>
      list_all isDecimal (drop 8 s))"

text \<open>
  The three numbers of a text that matches the pattern:
  \<^verbatim>\<open>s.split('-').map(Number)\<close>.
\<close>

definition splitDate :: "string \<Rightarrow> int \<times> int \<times> int" where
  "splitDate s =
     (int (natOfDigits 10 (take 4 s)),
      int (natOfDigits 10 (take 2 (drop 5 s))),
      int (natOfDigits 10 (drop 8 s)))"

text \<open>
  \<^verbatim>\<open>new Date(s).getTime()\<close> for a text \<open>s\<close>. ECMAScript reads the date-only form
  \<^verbatim>\<open>YYYY-MM-DD\<close> as midnight UTC of that date, whatever the device's zone. Any other
  text, and a date that the calendar does not have, is taken here as unparseable
  (\<^verbatim>\<open>NaN\<close>, \<open>None\<close>).
\<close>

definition parseDateUTC :: "string \<Rightarrow> int option" where
  "parseDateUTC s =
     (if datePattern s then
        (case splitDate s of
           (y, m, d) \<Rightarrow>
             if 1 \<le> m \<and> m \<le> 12 \<and> 1 \<le> d \<and> civil_from_days (days_from_civil y m d) = (y, m, d)
             then Some (days_from_civil y m d * oneDay)
             else None)
      else None)"

section \<open>Habit commands\<close>

text \<open>
  An \<^verbatim>\<open>Alert.alert(title, message)\<close> that ends a handler with the state as it was. The
  texts are the source's, the messages cut down to their ASCII part.
\<close>

datatype alert = Alert string string

text \<open>\<^verbatim>\<open>addNewHabit\<close>, from the fields of the "add" dialog.\<close>

definition addNewHabit :: "Env \<Rightarrow> string \<Rightarrow> string \<Rightarrow> string \<Rightarrow> AppState \<Rightarrow> alert + AppState" where
  "addNewHabit env newHabitName newHabitCategory newHabitColor st =
     (if trim newHabitName = [] then Inl (Alert ''Fel'' ''Ange ett namn'')
      else Inr (st\<lparr>habits :=
        \<lparr>hid = string_of_int (now env) @ string_of_int (random1000 env),
         name = trim newHabitName,
         category = Some (trim newHabitCategory),
         color = newHabitColor,
         selectedMode = Stopwatch,
         timerDuration = 60,
         timerInput = ''1'',
         elapsed = 0,
         isRunning = False,
         streak = 0,
         lastLogDate = []\<rparr> # habits st\<rparr>))"

text \<open>
  \<^verbatim>\<open>toggleRunHabit(id)\<close>. The updater maps over the habits; for a running habit with
  this id it calls \<^verbatim>\<open>saveSession\<close>, whose own updates are issued during the map and so
  take effect after it.
\<close>

definition orOne :: "int option \<Rightarrow> int" where
  "orOne v = (case v of None \<Rightarrow> 1 | Some n \<Rightarrow> (if n = 0 then 1 else n))"

definition toggleHabit :: "string \<Rightarrow> Habit \<Rightarrow> Habit" where
  "toggleHabit i h =
     (if hid h = i then
        (if isRunning h then h\<lparr>isRunning := False, elapsed := 0\<rparr>
         else h\<lparr>isRunning := True,
                timerDuration :=
                  (if selectedMode h = Timer then orOne (parseInt (timerInput h)) * 60
                   else timerDuration h)\<rparr>)
      else h)"

definition toggleRunHabit :: "Env \<Rightarrow> string \<Rightarrow> AppState \<Rightarrow> AppState" where
  "toggleRunHabit env i st =
     foldl (\<lambda>s h. saveSession env (name h) (elapsed h) (Timed (selectedMode h)) (color h) None s)
       (st\<lparr>habits := map (toggleHabit i) (habits st)\<rparr>)
       (filter (\<lambda>h. hid h = i \<and> isRunning h) (habits st))"

text \<open>
  \<^verbatim>\<open>deleteHabit(id)\<close> asks "Ta bort vana?"; \<open>answer\<close> is the button pressed, \<open>True\<close> for
  "Ja".
\<close>

definition deleteHabit :: "string \<Rightarrow> bool \<Rightarrow> AppState \<Rightarrow> AppState" where
  "deleteHabit i answer st =
     (if answer
      then st\<lparr>habits := filter (\<lambda>h. hid h \<noteq> i) (habits st),
              goals := filter (\<lambda>g. habitId g \<noteq> i) (goals st)\<rparr>
      else st)"

definition incrementTimer :: "string \<Rightarrow> AppState \<Rightarrow> AppState" where
  "incrementTimer i st =
     st\<lparr>habits := map (\<lambda>h. if hid h = i
        then h\<lparr>timerInput := numToString (map_option (\<lambda>n. n + 1) (parseInt (timerInput h)))\<rparr>
        else h) (habits st)\<rparr>"

definition decrementTimer :: "string \<Rightarrow> AppState \<Rightarrow> AppState" where
  "decrementTimer i st =
     st\<lparr>habits := map (\<lambda>h. if hid h = i
        then h\<lparr>timerInput := numToString (map_option (\<lambda>n. max 1 (n - 1)) (parseInt (timerInput h)))\<rparr>
        else h) (habits st)\<rparr>"

definition switchMode :: "string \<Rightarrow> Mode \<Rightarrow> AppState \<Rightarrow> AppState" where
  "switchMode i newMode st =
     st\<lparr>habits := map (\<lambda>h. if hid h = i
        then h\<lparr>selectedMode := newMode, elapsed := 0, isRunning := False\<rparr>
        else h) (habits st)\<rparr>"

text \<open>\<^verbatim>\<open>onDragBegin\<close> and \<^verbatim>\<open>onDragEnd\<close> of the list of habit cards.\<close>

definition onDragBegin :: "AppState \<Rightarrow> AppState" where
  "onDragBegin st = st\<lparr>isDragging := True\<rparr>"

definition onDragEnd :: "Habit list \<Rightarrow> AppState \<Rightarrow> AppState" where
  "onDragEnd data st = st\<lparr>habits := data, isDragging := False\<rparr>"

section \<open>Ledger commands\<close>

text \<open>
  \<^verbatim>\<open>saveManualLog\<close>, from the fields \<^verbatim>\<open>manualHabitId\<close>, \<^verbatim>\<open>manualMinutes\<close> and
  \<^verbatim>\<open>manualDate\<close> of the dialog. The record is dated at the local midnight of the date
  typed in.
\<close>

definition saveManualLog ::
  "Env \<Rightarrow> string option \<Rightarrow> string \<Rightarrow> string \<Rightarrow> AppState \<Rightarrow> alert + AppState" where
  "saveManualLog env manualHabitId manualMinutes manualDate st =
     (case find (\<lambda>h. Some (hid h) = manualHabitId) (habits st) of
        None \<Rightarrow> Inr st
      | Some habit \<Rightarrow>
          (case parseInt manualMinutes of
             None \<Rightarrow> Inl (Alert ''Fel'' ''Ange ett giltigt antal minuter'')
           | Some mins \<Rightarrow>
               if mins \<le> 0 then Inl (Alert ''Fel'' ''Ange ett giltigt antal minuter'')
               else if \<not> datePattern manualDate then Inl (Alert ''Fel datum'' ''YYYY-MM-DD'')
               else
                 (case splitDate manualDate of
                    (y, m, d) \<Rightarrow>
                      Inr (saveSession env (name habit) (mins * 60) Manual (color habit)
                            (Some (localDateMs env y m d)) st))))"

text \<open>\<^verbatim>\<open>saveAdjustment\<close>, from the fields of the "Justera" dialog.\<close>

datatype AdjustType = Add | Remove

definition saveAdjustment ::
  "Env \<Rightarrow> string \<Rightarrow> string \<Rightarrow> string \<Rightarrow> AdjustType \<Rightarrow> AppState \<Rightarrow> AppState" where
  "saveAdjustment env adjustHabitName adjustHabitColor adjustMinutes adjustType st =
     (case parseInt adjustMinutes of
        None \<Rightarrow> st
      | Some mins \<Rightarrow>
          if mins > 0
          then (let seconds = mins * 60
                in saveSession env adjustHabitName
                     (if adjustType = Add then seconds else - seconds)
                     Adjustment adjustHabitColor None st)
          else st)"

section \<open>Goals\<close>

text \<open>
  \<^verbatim>\<open>saveGoal\<close>, from the fields of the goal dialog; a text is falsy when it is empty.
\<close>

definition saveGoal ::
  "string option \<Rightarrow> string \<Rightarrow> GoalPeriod \<Rightarrow> string \<Rightarrow> string \<Rightarrow> AppState \<Rightarrow> alert + AppState" where
  "saveGoal goalHabitId goalTarget goalPeriod goalStartDate goalEndDate st =
     (case goalHabitId of
        None \<Rightarrow> Inr st
      | Some gid \<Rightarrow>
          if gid = [] then Inr st
          else
            (case parseInt goalTarget of
               None \<Rightarrow> Inr st
             | Some mins \<Rightarrow>
                 if mins > 0 then
                   (if goalPeriod = Custom \<and> (goalStartDate = [] \<or> goalEndDate = [])
                    then Inl (Alert ''Fel'' ''Ange start- och slutdatum'')
                    else Inr (st\<lparr>goals :=
                      filter (\<lambda>g. habitId g \<noteq> gid) (goals st) @
                        [\<lparr>habitId = gid, targetMinutes = mins, period = goalPeriod,
                          startDate = Some goalStartDate, endDate = Some goalEndDate\<rparr>]\<rparr>))
                 else Inr st))"

text \<open>
  \<^verbatim>\<open>getGoalProgress(habitId, goal)\<close>. The predicate of its \<^verbatim>\<open>filter\<close> has two parts: the
  record's name is the name of the first habit with this id, and the record's instant
  is in the window of the goal's period. A comparison with \<^verbatim>\<open>NaN\<close> is false.
\<close>

definition truthy :: "string option \<Rightarrow> bool" where
  "truthy v = (case v of None \<Rightarrow> False | Some s \<Rightarrow> s \<noteq> [])"

definition inGoalWindow :: "Env \<Rightarrow> Goal \<Rightarrow> int \<Rightarrow> bool" where
  "inGoalWindow env goal ts =
     (if period goal = Daily then ts \<ge> startOfToday env
      else if period goal = Weekly then now env - ts < 7 * oneDay
      else if period goal = Monthly then now env - ts < 30 * oneDay
      else if period goal = Custom \<and> truthy (startDate goal) \<and> truthy (endDate goal) then
        (case (Option.bind (startDate goal) parseDateUTC, Option.bind (endDate goal) parseDateUTC) of
           (Some start, Some end') \<Rightarrow> ts \<ge> start \<and> ts < end' + oneDay
         | _ \<Rightarrow> False)
      else False)"

definition goalFilter :: "Env \<Rightarrow> AppState \<Rightarrow> string \<Rightarrow> Goal \<Rightarrow> HistoryItem \<Rightarrow> bool" where
  "goalFilter env st i goal item =
     (case find (\<lambda>h. hid h = i) (habits st) of
        None \<Rightarrow> False
      | Some habit \<Rightarrow>
          if habitName item \<noteq> name habit then False
          else inGoalWindow env goal (timestampMs item))"

definition getGoalProgress :: "Env \<Rightarrow> AppState \<Rightarrow> string \<Rightarrow> Goal \<Rightarrow> int" where
  "getGoalProgress env st i goal =
     (let filtered = filter (goalFilter env st i goal) (history st);
          total = foldl (\<lambda>acc curr. acc + duration curr) 0 filtered
      in total div 60)"

section \<open>Runs of the engine\<close>

text \<open>
  One event of the application: a beat of the one-second interval or a handler with
  the input it reads. A handler that ends in an alert leaves the state as it was.
\<close>

datatype event =
    Tick
  | AddNewHabit string string string
  | ToggleRunHabit string
  | DeleteHabit string bool
  | IncrementTimer string
  | DecrementTimer string
  | SwitchMode string Mode
  | SaveManualLog "string option" string string
  | SaveAdjustment string string string AdjustType
  | SaveGoal "string option" string GoalPeriod string string
  | DragBegin
  | DragEnd "Habit list"

definition orSame :: "AppState \<Rightarrow> alert + AppState \<Rightarrow> AppState" where
  "orSame st r = (case r of Inl _ \<Rightarrow> st | Inr st' \<Rightarrow> st')"

fun step :: "Env \<Rightarrow> event \<Rightarrow> AppState \<Rightarrow> AppState" where
  "step env Tick st = tick st"
| "step env (AddNewHabit n c col) st = orSame st (addNewHabit env n c col st)"
| "step env (ToggleRunHabit i) st = toggleRunHabit env i st"
| "step env (DeleteHabit i answer) st = deleteHabit i answer st"
| "step env (IncrementTimer i) st = incrementTimer i st"
| "step env (DecrementTimer i) st = decrementTimer i st"
| "step env (SwitchMode i m) st = switchMode i m st"
| "step env (SaveManualLog i mins date) st = orSame st (saveManualLog env i mins date st)"
| "step env (SaveAdjustment n col mins t) st = saveAdjustment env n col mins t st"
| "step env (SaveGoal i target p s e) st = orSame st (saveGoal i target p s e st)"
| "step env DragBegin st = onDragBegin st"
| "step env (DragEnd data) st = onDragEnd data st"

text \<open>A run: the events in order, each with the platform as it was when it happened.\<close>

fun run :: "(Env \<times> event) list \<Rightarrow> AppState \<Rightarrow> AppState" where
  "run [] st = st"
| "run ((env, e) # es) st = run es (step env e st)"


section \<open>Properties of habits\<close>

text \<open>The bound of a countdown: its target is not negative and not exceeded.\<close>

definition countdownBounded :: "Habit \<Rightarrow> bool" where
  "countdownBounded h =
     (selectedMode h = Timer \<longrightarrow> 0 \<le> timerDuration h \<and> elapsed h \<le> timerDuration h)"

section \<open>The goal window in the words of the specification\<close>

text \<open>
  For comparison with \<open>inGoalWindow\<close>, the window of a goal as the specification words
  it (its section 4.4), not as the source computes it: for a daily goal from the local
  midnight of now through now, for a weekly goal from 7 days before now through now,
  for a monthly goal from 30 days before now through now, and for a custom goal from
  the start date at 00:00 local time to the end date at 00:00 local time plus 24 hours,
  the last instant left out. \<open>specGoalProgress\<close> is the progress over that window.
\<close>

definition specLocalMidnight :: "Env \<Rightarrow> string \<Rightarrow> int" where
  "specLocalMidnight env s = (case splitDate s of (y, m, d) \<Rightarrow> localDateMs env y m d)"

definition specWindow :: "Env \<Rightarrow> Goal \<Rightarrow> int \<Rightarrow> bool" where
  "specWindow env goal ts =
     (case period goal of
        Daily \<Rightarrow> startOfToday env \<le> ts \<and> ts \<le> now env
      | Weekly \<Rightarrow> now env - 7 * 86400000 \<le> ts \<and> ts \<le> now env
      | Monthly \<Rightarrow> now env - 30 * 86400000 \<le> ts \<and> ts \<le> now env
      | Custom \<Rightarrow>
          (case (startDate goal, endDate goal) of
             (Some s, Some e) \<Rightarrow>
               specLocalMidnight env s \<le> ts \<and> ts < specLocalMidnight env e + 24 * 3600000
           | _ \<Rightarrow> False))"

definition specGoalProgress :: "Env \<Rightarrow> AppState \<Rightarrow> string \<Rightarrow> Goal \<Rightarrow> int" where
  "specGoalProgress env st i goal =
     (case find (\<lambda>h. hid h = i) (habits st) of
        None \<Rightarrow> 0
      | Some habit \<Rightarrow>
          sum_list (map duration (filter
            (\<lambda>item. habitName item = name habit \<and> specWindow env goal (timestampMs item))
            (history st))) div 60)"

section \<open>Example data\<close>

text \<open>
  A device one hour east of UTC at 2024-03-05 12:00 local time, and two habits: a
  stopwatch that has run for 125 seconds and a ten-minute countdown one second before
  its end.
\<close>

definition exampleEnv :: Env where
  "exampleEnv =
     \<lparr>now = 1709636400000, utcOffset = 3600000, randomText = ''0.25'', random1000 = 7,
      toLocaleString = (\<lambda>t. string_of_int t)\<rparr>"

definition reading :: Habit where
  "reading =
     \<lparr>hid = ''h1'', name = ''Reading'', category = None, color = ''#3498db'',
      selectedMode = Stopwatch, timerDuration = 60, timerInput = ''1'', elapsed = 125,
      isRunning = True, streak = 0, lastLogDate = []\<rparr>"

definition meditate :: Habit where
  "meditate =
     \<lparr>hid = ''h2'', name = ''Meditate'', category = Some ''Health'', color = ''#2ecc71'',
      selectedMode = Timer, timerDuration = 600, timerInput = ''10'', elapsed = 599,
      isRunning = True, streak = 3, lastLogDate = ''2024-03-04''\<rparr>"

definition oldRecord :: HistoryItem where
  "oldRecord =
     \<lparr>item_id = ''17095500000000.5'', habitName = ''Reading'', duration = 1200,
      mode = Timed Stopwatch, timestampStr = ''1709550000000'', timestampMs = 1709550000000,
      item_color = ''#3498db''\<rparr>"

definition readingGoal :: Goal where
  "readingGoal =
     \<lparr>habitId = ''h1'', targetMinutes = 60, period = Weekly, startDate = Some ''2024-03-05'',
      endDate = Some ''2024-03-05''\<rparr>"

definition meditateGoal :: Goal where
  "meditateGoal =
     \<lparr>habitId = ''h2'', targetMinutes = 10, period = Daily, startDate = Some ''2024-03-05'',
      endDate = Some ''2024-03-05''\<rparr>"

definition exampleState :: AppState where
  "exampleState =
     \<lparr>habits = [reading, meditate], history = [oldRecord],
      goals = [readingGoal, meditateGoal], isDragging = False\<rparr>"

text \<open>
  The scenario of the stopwatch: the habit "Reading" alone and idle, started, and 125
  beats of the interval later.
\<close>

definition readingIdle :: Habit where
  "readingIdle = reading\<lparr>elapsed := 0, isRunning := False\<rparr>"

definition freshState :: AppState where
  "freshState = \<lparr>habits = [readingIdle], history = [], goals = [], isDragging = False\<rparr>"

definition runningState125 :: AppState where
  "runningState125 = (tick ^^ 125) (toggleRunHabit exampleEnv ''h1'' freshState)"

text \<open>The countdown alone, with an empty ledger.\<close>

definition countdownState :: AppState where
  "countdownState = \<lparr>habits = [meditate], history = [], goals = [], isDragging = False\<rparr>"

text \<open>
  "Reading" with one day logged, on 2024-01-01, and the ledger with the session of that
  day (12:00 local time).
\<close>

definition readingJan :: Habit where
  "readingJan = readingIdle\<lparr>streak := 1, lastLogDate := ''2024-01-01''\<rparr>"

definition janRecord :: HistoryItem where
  "janRecord =
     \<lparr>item_id = ''17041068000000.75'', habitName = ''Reading'', duration = 600,
      mode = Timed Stopwatch, timestampStr = ''1704106800000'', timestampMs = 1704106800000,
      item_color = ''#3498db''\<rparr>"

definition januaryState :: AppState where
  "januaryState = \<lparr>habits = [readingJan], history = [janRecord], goals = [], isDragging = False\<rparr>"

text \<open>
  The goal of the custom-period scenario, and the same instant on devices on UTC and
  five hours west of it.
\<close>

definition customGoal :: Goal where
  "customGoal =
     \<lparr>habitId = ''h1'', targetMinutes = 60, period = Custom, startDate = Some ''2024-01-01'',
      endDate = Some ''2024-01-03''\<rparr>"

definition utcEnv :: Env where
  "utcEnv = exampleEnv\<lparr>utcOffset := 0\<rparr>"

definition westEnv :: Env where
  "westEnv = exampleEnv\<lparr>utcOffset := - 18000000\<rparr>"

text \<open>
  A ledger around the edges of the weekly window of the example device: a manual log
  dated tomorrow (local midnight of 2024-03-06), the session of the day before, a
  record exactly seven days old, and a record of the other habit dated now.
\<close>

definition futureRecord :: HistoryItem where
  "futureRecord =
     \<lparr>item_id = ''17096364000000.1'', habitName = ''Reading'', duration = 1800,
      mode = Manual, timestampStr = ''1709679600000'', timestampMs = 1709679600000,
      item_color = ''#3498db''\<rparr>"

definition weekOldRecord :: HistoryItem where
  "weekOldRecord =
     \<lparr>item_id = ''17090316000000.3'', habitName = ''Reading'', duration = 600,
      mode = Timed Stopwatch, timestampStr = ''1709031600000'', timestampMs = 1709031600000,
      item_color = ''#3498db''\<rparr>"

definition otherRecord :: HistoryItem where
  "otherRecord =
     \<lparr>item_id = ''17096364000000.9'', habitName = ''Meditate'', duration = 300,
      mode = Timed Timer, timestampStr = ''1709636400000'', timestampMs = 1709636400000,
      item_color = ''#2ecc71''\<rparr>"

definition windowState :: AppState where
  "windowState =
     exampleState\<lparr>history := [futureRecord, otherRecord, oldRecord, weekOldRecord]\<rparr>"

section \<open>Basic facts\<close>

declare string_of_nat.simps [simp del]

lemma saveSession_zero: "saveSession env nm 0 md col timestamp st = st"
  by (simp add: saveSession_def)

lemma bumpStreak_nonpos: "dur \<le> 0 \<Longrightarrow> bumpStreak nm dur dateStr h = h"
  by (simp add: bumpStreak_def)

lemma saveSession_habits:
  "habits (saveSession env nm dur md col timestamp st) =
     map (bumpStreak nm dur (getTodayString env)) (habits st)"
  by (simp add: saveSession_def Let_def bumpStreak_nonpos map_idI)

lemma saveSession_history:
  "dur \<noteq> 0 \<Longrightarrow>
   history (saveSession env nm dur md col timestamp st) =
     \<lparr>item_id = string_of_int (now env) @ randomText env, habitName = nm, duration = dur,
      mode = md, timestampStr = toLocaleString env (orNow env timestamp),
      timestampMs = orNow env timestamp, item_color = col\<rparr> # history st"
  by (simp add: saveSession_def Let_def)

lemma saveSession_goals: "goals (saveSession env nm dur md col timestamp st) = goals st"
  by (simp add: saveSession_def Let_def)

lemma saveSession_isDragging:
  "isDragging (saveSession env nm dur md col timestamp st) = isDragging st"
  by (simp add: saveSession_def Let_def)

lemma tick_history: "history (tick st) = history st"
  by (simp add: tick_def)

lemma tick_goals: "goals (tick st) = goals st"
  by (simp add: tick_def)

section \<open>Suppressed ticks\<close>

text \<open>
  Claim C8. While the drag flag is set, a tick is the identity on the engine state: no
  habit's elapsed time or running flag changes, nothing else changes, and the ledger
  gains no record.
\<close>

theorem tick_suppressed_identity: "isDragging st \<Longrightarrow> tick st = st"
  by (simp add: tick_def)

theorem tick_suppressed_identity_witness:
  "tick (exampleState\<lparr>isDragging := True\<rparr>) = exampleState\<lparr>isDragging := True\<rparr>"
proof -
  have dragging: "isDragging (exampleState\<lparr>isDragging := True\<rparr>)"
    by simp
  show ?thesis
    by (rule tick_suppressed_identity [OF dragging])
qed

text \<open>The same tick with the flag clear does change the state: the flag is what stops it.\<close>

lemma tick_unsuppressed_example:
  "map elapsed (habits (tick exampleState)) = [126, 0] \<and>
   map isRunning (habits (tick exampleState)) = [True, False]"
  by (simp add: tick_def tickHabit_def exampleState_def reading_def meditate_def)

section \<open>Deleting a habit\<close>

text \<open>
  Claim C9. Deleting a habit (the question answered "Ja") removes every goal whose
  \<open>habitId\<close> is the habit's id and keeps the other goals, leaves the ledger exactly as it
  was, and removes the habit, running or not, so that its elapsed time is gone and no
  record was written for it.
\<close>

theorem deleteHabit_cascade:
  "goals (deleteHabit i True st) = filter (\<lambda>g. habitId g \<noteq> i) (goals st) \<and>
   (\<forall>g \<in> set (goals (deleteHabit i True st)). habitId g \<noteq> i) \<and>
   history (deleteHabit i True st) = history st \<and>
   (\<forall>h \<in> set (habits (deleteHabit i True st)). hid h \<noteq> i) \<and>
   habits (deleteHabit i True st) = filter (\<lambda>h. hid h \<noteq> i) (habits st)"
  by (simp add: deleteHabit_def)

theorem deleteHabit_cascade_witness:
  "isRunning reading \<and> elapsed reading = 125 \<and>
   goals (deleteHabit ''h1'' True exampleState) = [meditateGoal] \<and>
   history (deleteHabit ''h1'' True exampleState) = [oldRecord] \<and>
   habits (deleteHabit ''h1'' True exampleState) = [meditate]"
proof -
  have g: "filter (\<lambda>g. habitId g \<noteq> ''h1'') (goals exampleState) = [meditateGoal]"
    by (simp add: exampleState_def readingGoal_def meditateGoal_def)
  have h: "filter (\<lambda>h. hid h \<noteq> ''h1'') (habits exampleState) = [meditate]"
    by (simp add: exampleState_def reading_def meditate_def)
  have r: "history exampleState = [oldRecord]"
    by (simp add: exampleState_def)
  have e: "isRunning reading \<and> elapsed reading = 125"
    by (simp add: reading_def)
  from deleteHabit_cascade [of "''h1''" exampleState] g h r e show ?thesis
    by simp
qed

text \<open>Answering "Nej" leaves everything as it was.\<close>

lemma deleteHabit_cancelled: "deleteHabit i False st = st"
  by (simp add: deleteHabit_def)

section \<open>Facts about the timer\<close>

lemma tickHabit_idle: "\<not> isRunning h \<Longrightarrow> tickHabit h = h"
  by (simp add: tickHabit_def)

lemma tick_habits: "\<not> isDragging st \<Longrightarrow> habits (tick st) = map tickHabit (habits st)"
  by (simp add: tick_def list_ex_iff tickHabit_idle map_idI)

lemma tick_dragging: "isDragging st \<Longrightarrow> tick st = st"
  by (simp add: tick_def)

lemma tick_isDragging: "isDragging (tick st) = isDragging st"
  by (simp add: tick_def)

lemma ticks_isDragging: "isDragging ((tick ^^ n) st) = isDragging st"
  by (induction n) (simp_all add: tick_isDragging)

lemma ticks_habits:
  "\<not> isDragging st \<Longrightarrow> habits ((tick ^^ n) st) = map (tickHabit ^^ n) (habits st)"
proof (induction n)
  case 0
  then show ?case by simp
next
  case (Suc n)
  then have "\<not> isDragging ((tick ^^ n) st)"
    by (simp add: ticks_isDragging)
  with Suc show ?case
    by (simp add: tick_habits)
qed

text \<open>No beat of the interval, and so no sequence of beats, writes to the ledger.\<close>

lemma ticks_history: "history ((tick ^^ n) st) = history st"
  by (induction n) (simp_all add: tick_history)

lemma ticks_goals: "goals ((tick ^^ n) st) = goals st"
  by (induction n) (simp_all add: tick_goals)

lemma tickHabit_stopwatch_iter:
  "isRunning h \<Longrightarrow> selectedMode h = Stopwatch \<Longrightarrow>
   (tickHabit ^^ n) h = h\<lparr>elapsed := elapsed h + int n\<rparr>"
  by (induction n) (simp_all add: tickHabit_def)

text \<open>An id that is unique in the list selects its habit alone.\<close>

lemma filter_hid_unique:
  "distinct (map hid hs) \<Longrightarrow> h \<in> set hs \<Longrightarrow> filter (\<lambda>x. hid x = hid h) hs = [h]"
proof (induction hs)
  case Nil
  then show ?case by simp
next
  case (Cons a hs)
  show ?case
  proof (cases "a = h")
    case True
    with Cons.prems have "\<forall>x \<in> set hs. hid x \<noteq> hid h"
      by (force simp: image_iff)
    then have "filter (\<lambda>x. hid x = hid h) hs = []"
      by (simp add: filter_empty_conv)
    with True show ?thesis by simp
  next
    case False
    with Cons.prems have in_tl: "h \<in> set hs" by simp
    with Cons.prems have "hid a \<noteq> hid h" by (force simp: image_iff)
    with Cons.IH Cons.prems in_tl show ?thesis by simp
  qed
qed

text \<open>
  Stopping: for a running habit whose id is unique, \<^verbatim>\<open>toggleRunHabit\<close> is the map that
  stops it followed by one call of \<^verbatim>\<open>saveSession\<close> with its elapsed time and mode.
\<close>

lemma toggleRunHabit_stop:
  assumes "distinct (map hid (habits st))" and "h \<in> set (habits st)" and "isRunning h"
  shows "toggleRunHabit env (hid h) st =
           saveSession env (name h) (elapsed h) (Timed (selectedMode h)) (color h) None
             (st\<lparr>habits := map (toggleHabit (hid h)) (habits st)\<rparr>)"
proof -
  have "filter (\<lambda>x. hid x = hid h \<and> isRunning x) (habits st) =
          filter isRunning (filter (\<lambda>x. hid x = hid h) (habits st))"
    by (simp add: conj_commute)
  also have "\<dots> = [h]"
    using assms by (simp add: filter_hid_unique)
  finally show ?thesis
    by (simp add: toggleRunHabit_def)
qed

text \<open>Starting writes nothing to the ledger: no habit with the id is running.\<close>

lemma toggleRunHabit_start:
  "\<forall>h \<in> set (habits st). hid h = i \<longrightarrow> \<not> isRunning h \<Longrightarrow>
   toggleRunHabit env i st = st\<lparr>habits := map (toggleHabit i) (habits st)\<rparr>"
proof -
  assume "\<forall>h \<in> set (habits st). hid h = i \<longrightarrow> \<not> isRunning h"
  then have "filter (\<lambda>h. hid h = i \<and> isRunning h) (habits st) = []"
    by (auto simp: filter_empty_conv)
  then show ?thesis
    by (simp add: toggleRunHabit_def)
qed

text \<open>The state of the stopwatch scenario after its 125 beats.\<close>

lemma runningState125_eq:
  "runningState125 = \<lparr>habits = [reading], history = [], goals = [], isDragging = False\<rparr>"
proof -
  have start: "toggleRunHabit exampleEnv ''h1'' freshState =
      \<lparr>habits = [reading\<lparr>elapsed := 0\<rparr>], history = [], goals = [], isDragging = False\<rparr>"
    by (simp add: toggleRunHabit_def toggleHabit_def freshState_def readingIdle_def reading_def)
  have run: "isRunning (reading\<lparr>elapsed := 0\<rparr>)" "selectedMode (reading\<lparr>elapsed := 0\<rparr>) = Stopwatch"
    by (simp_all add: reading_def)
  have "(tickHabit ^^ 125) (reading\<lparr>elapsed := 0\<rparr>) =
      reading\<lparr>elapsed := 0\<rparr>\<lparr>elapsed := elapsed (reading\<lparr>elapsed := 0\<rparr>) + int 125\<rparr>"
    by (rule tickHabit_stopwatch_iter [OF run])
  also have "\<dots> = reading"
    by (simp add: reading_def)
  finally have it: "(tickHabit ^^ 125) (reading\<lparr>elapsed := 0\<rparr>) = reading" .
  have hs: "habits runningState125 = [reading]"
    unfolding runningState125_def start
    by (simp add: ticks_habits it)
  have hi: "history runningState125 = []"
    unfolding runningState125_def start by (simp add: ticks_history)
  have go: "goals runningState125 = []"
    unfolding runningState125_def start by (simp add: ticks_goals)
  have dr: "isDragging runningState125 = False"
    unfolding runningState125_def start by (simp add: ticks_isDragging)
  from hs hi go dr show ?thesis
    by (cases runningState125) simp
qed

section \<open>Stopping a running habit\<close>

text \<open>
  Claim C2. The habit at position \<open>k\<close> is running and ids are unique, and
  \<^verbatim>\<open>toggleRunHabit\<close> is called with its id (a stop). With no elapsed time the ledger stays
  as it was. With positive elapsed time the ledger gains exactly one record, in front,
  whose duration is the elapsed time, whose mode is the habit's mode, under the habit's
  name and dated now. Either way the habit is idle afterwards with elapsed time 0.
\<close>

theorem stop_appends_one_record:
  assumes "distinct (map hid (habits st))"
    and "k < length (habits st)"
    and "isRunning (habits st ! k)"
  shows "(elapsed (habits st ! k) = 0 \<longrightarrow>
            history (toggleRunHabit env (hid (habits st ! k)) st) = history st) \<and>
         (elapsed (habits st ! k) > 0 \<longrightarrow>
            (\<exists>r. history (toggleRunHabit env (hid (habits st ! k)) st) = r # history st \<and>
                 duration r = elapsed (habits st ! k) \<and>
                 mode r = Timed (selectedMode (habits st ! k)) \<and>
                 habitName r = name (habits st ! k) \<and>
                 timestampMs r = now env)) \<and>
         \<not> isRunning (habits (toggleRunHabit env (hid (habits st ! k)) st) ! k) \<and>
         elapsed (habits (toggleRunHabit env (hid (habits st ! k)) st) ! k) = 0 \<and>
         hid (habits (toggleRunHabit env (hid (habits st ! k)) st) ! k) = hid (habits st ! k)"
proof -
  let ?h = "habits st ! k"
  have mem: "?h \<in> set (habits st)"
    using assms(2) by simp
  note eq = toggleRunHabit_stop [OF assms(1) mem assms(3), of env]
  have stopped: "toggleHabit (hid ?h) ?h = ?h\<lparr>isRunning := False, elapsed := 0\<rparr>"
    using assms(3) by (simp add: toggleHabit_def)
  have nth: "habits (toggleRunHabit env (hid ?h) st) ! k =
               bumpStreak (name ?h) (elapsed ?h) (getTodayString env)
                 (?h\<lparr>isRunning := False, elapsed := 0\<rparr>)"
    using assms(2) stopped by (simp add: eq saveSession_habits)
  have zero: "elapsed ?h = 0 \<longrightarrow> history (toggleRunHabit env (hid ?h) st) = history st"
    by (simp add: eq saveSession_zero)
  have pos: "elapsed ?h > 0 \<longrightarrow>
      (\<exists>r. history (toggleRunHabit env (hid ?h) st) = r # history st \<and>
           duration r = elapsed ?h \<and> mode r = Timed (selectedMode ?h) \<and>
           habitName r = name ?h \<and> timestampMs r = now env)"
    by (simp add: eq saveSession_history orNow_def)
  have idle: "\<not> isRunning (habits (toggleRunHabit env (hid ?h) st) ! k) \<and>
              elapsed (habits (toggleRunHabit env (hid ?h) st) ! k) = 0 \<and>
              hid (habits (toggleRunHabit env (hid ?h) st) ! k) = hid ?h"
    by (simp add: nth bumpStreak_def)
  from zero pos idle show ?thesis
    by blast
qed

text \<open>
  The scenario of the stopwatch: "Reading" started, 125 beats, then stopped. The ledger,
  empty before, holds one record of 125 seconds of kind stopwatch.
\<close>

theorem stop_appends_one_record_witness:
  "\<exists>r. history (toggleRunHabit exampleEnv ''h1'' runningState125) = [r] \<and>
       duration r = 125 \<and> mode r = Timed Stopwatch \<and> habitName r = ''Reading'' \<and>
       timestampMs r = 1709636400000 \<and>
       \<not> isRunning (habits (toggleRunHabit exampleEnv ''h1'' runningState125) ! 0) \<and>
       elapsed (habits (toggleRunHabit exampleEnv ''h1'' runningState125) ! 0) = 0"
proof -
  have d: "distinct (map hid (habits runningState125))"
    by (simp add: runningState125_eq)
  have k: "0 < length (habits runningState125)"
    by (simp add: runningState125_eq)
  have r: "isRunning (habits runningState125 ! 0)"
    by (simp add: runningState125_eq reading_def)
  have h: "habits runningState125 ! 0 = reading" "history runningState125 = []"
    by (simp_all add: runningState125_eq)
  have v: "hid reading = ''h1''" "elapsed reading = 125" "selectedMode reading = Stopwatch"
    "name reading = ''Reading''" "now exampleEnv = 1709636400000"
    by (simp_all add: reading_def exampleEnv_def)
  from stop_appends_one_record [OF d k r, of exampleEnv] show ?thesis
    unfolding h v by simp
qed

text \<open>
  In that scenario the streak, 0 with no earlier log date, becomes 1 and the log date
  becomes today.
\<close>

lemma getTodayString_exampleEnv: "getTodayString exampleEnv = ''2024-03-05''"
  by code_simp

lemma stopwatch_scenario_streak:
  "map streak (habits (toggleRunHabit exampleEnv ''h1'' runningState125)) = [1] \<and>
   map lastLogDate (habits (toggleRunHabit exampleEnv ''h1'' runningState125)) = [''2024-03-05'']"
  by (simp add: runningState125_eq toggleRunHabit_def toggleHabit_def saveSession_def
      bumpStreak_def getTodayString_exampleEnv reading_def)

text \<open>Starting, the other branch of \<^verbatim>\<open>toggleRunHabit\<close>, leaves the ledger alone.\<close>

lemma start_history:
  "\<forall>h \<in> set (habits st). hid h = i \<longrightarrow> \<not> isRunning h \<Longrightarrow>
   history (toggleRunHabit env i st) = history st"
  by (simp add: toggleRunHabit_start)

section \<open>The end of a countdown\<close>

text \<open>
  What a beat does to a running countdown: below the target it adds a second, and at
  the beat that would reach the target it stops the habit and resets the elapsed time.
\<close>

lemma tickHabit_countdown_completes:
  "isRunning h \<Longrightarrow> selectedMode h = Timer \<Longrightarrow> elapsed h + 1 \<ge> timerDuration h \<Longrightarrow>
   tickHabit h = h\<lparr>isRunning := False, elapsed := 0\<rparr>"
  by (simp add: tickHabit_def)

lemma tickHabit_countdown_continues:
  "isRunning h \<Longrightarrow> selectedMode h = Timer \<Longrightarrow> elapsed h + 1 < timerDuration h \<Longrightarrow>
   tickHabit h = h\<lparr>elapsed := elapsed h + 1\<rparr>"
  by (simp add: tickHabit_def)

text \<open>
  The elapsed time of a countdown never exceeds its target: the bound
  \<open>countdownBounded\<close> holds after every beat when it held before.
\<close>

lemma tickHabit_countdownBounded: "countdownBounded h \<Longrightarrow> countdownBounded (tickHabit h)"
  by (auto simp: countdownBounded_def tickHabit_def Let_def)

lemma ticks_countdownBounded:
  assumes "\<forall>h \<in> set (habits st). countdownBounded h"
  shows "\<forall>h \<in> set (habits ((tick ^^ n) st)). countdownBounded h"
proof (induction n)
  case 0
  from assms show ?case by simp
next
  case (Suc n)
  show ?case
  proof (cases "isDragging ((tick ^^ n) st)")
    case True
    then have "(tick ^^ Suc n) st = (tick ^^ n) st"
      by (simp add: tick_dragging)
    with Suc show ?thesis by simp
  next
    case False
    with Suc show ?thesis
      by (auto simp: tick_habits tickHabit_countdownBounded)
  qed
qed

text \<open>
  Claim C1, at the countdown "Meditate" of 600 seconds with 599 elapsed. The beat that
  reaches the target makes the habit idle with elapsed time 0, and the ledger, empty
  before, is empty after: no record of 600 seconds of kind countdown is committed, and
  the streak and log date of the habit stay as they were.
\<close>

theorem countdown_completion_commits_nothing:
  "isRunning meditate \<and> selectedMode meditate = Timer \<and>
   elapsed meditate + 1 = timerDuration meditate \<and> timerDuration meditate = 600 \<and>
   habits (tick countdownState) = [meditate\<lparr>isRunning := False, elapsed := 0\<rparr>] \<and>
   history (tick countdownState) = [] \<and>
   map streak (habits (tick countdownState)) = [streak meditate] \<and>
   map lastLogDate (habits (tick countdownState)) = [lastLogDate meditate]"
  by (simp add: tick_def tickHabit_def countdownState_def meditate_def)

text \<open>
  The whole scenario, from the start over 600 beats, ends the same way: whatever the
  number of beats, the ledger is as it was at the start.
\<close>

lemma countdown_scenario_ledger:
  "history ((tick ^^ n) (toggleRunHabit env ''h2''
     (countdownState\<lparr>habits := [meditate\<lparr>isRunning := False, elapsed := 0\<rparr>]\<rparr>))) = []"
  by (simp add: ticks_history toggleRunHabit_def countdownState_def meditate_def)

section \<open>Switching the mode\<close>

text \<open>
  Claim C6 as stated fails: \<^verbatim>\<open>switchMode\<close> on the running habit "Reading" is carried out.
  The state changes, the habit is stopped, its 125 elapsed seconds are reset and its
  mode is the new one.
\<close>

theorem switchMode_running_counterexample:
  "isRunning (habits exampleState ! 0) \<and> hid (habits exampleState ! 0) = ''h1'' \<and>
   switchMode ''h1'' Timer exampleState \<noteq> exampleState \<and>
   habits (switchMode ''h1'' Timer exampleState) =
     [reading\<lparr>selectedMode := Timer, elapsed := 0, isRunning := False\<rparr>, meditate]"
proof -
  have hs: "habits (switchMode ''h1'' Timer exampleState) =
      [reading\<lparr>selectedMode := Timer, elapsed := 0, isRunning := False\<rparr>, meditate]"
    by (simp add: switchMode_def exampleState_def reading_def meditate_def)
  have "habits (switchMode ''h1'' Timer exampleState) \<noteq> habits exampleState"
    unfolding hs by (simp add: exampleState_def reading_def)
  then have ne: "switchMode ''h1'' Timer exampleState \<noteq> exampleState"
    by auto
  have "isRunning (habits exampleState ! 0) \<and> hid (habits exampleState ! 0) = ''h1''"
    by (simp add: exampleState_def reading_def)
  with hs ne show ?thesis
    by simp
qed

text \<open>
  Claim C6 as amended. \<^verbatim>\<open>switchMode\<close> has no failure and no precondition. Every habit
  with the id, running or idle, gets the new mode, elapsed time 0 and the running flag
  cleared, its other fields kept; every other habit is kept; the ledger, the goals and
  the drag flag are as before. On a running habit it is a hard stop that logs nothing.
\<close>

theorem switchMode_forces_idle:
  "length (habits (switchMode i newMode st)) = length (habits st) \<and>
   (\<forall>k < length (habits st). hid (habits st ! k) = i \<longrightarrow>
      habits (switchMode i newMode st) ! k =
        (habits st ! k)\<lparr>selectedMode := newMode, elapsed := 0, isRunning := False\<rparr>) \<and>
   (\<forall>k < length (habits st). hid (habits st ! k) \<noteq> i \<longrightarrow>
      habits (switchMode i newMode st) ! k = habits st ! k) \<and>
   history (switchMode i newMode st) = history st \<and>
   goals (switchMode i newMode st) = goals st \<and>
   isDragging (switchMode i newMode st) = isDragging st"
  by (simp add: switchMode_def)

theorem switchMode_forces_idle_witness:
  "habits (switchMode ''h1'' Timer exampleState) ! 0 =
     reading\<lparr>selectedMode := Timer, elapsed := 0, isRunning := False\<rparr> \<and>
   habits (switchMode ''h1'' Timer exampleState) ! 1 = meditate \<and>
   history (switchMode ''h1'' Timer exampleState) = [oldRecord]"
proof -
  have l: "length (habits exampleState) = 2"
    by (simp add: exampleState_def)
  have h: "habits exampleState ! 0 = reading" "habits exampleState ! 1 = meditate"
    "history exampleState = [oldRecord]"
    by (simp_all add: exampleState_def)
  have i: "hid reading = ''h1''" "hid meditate \<noteq> ''h1''"
    by (simp_all add: reading_def meditate_def)
  from switchMode_forces_idle [of "''h1''" Timer exampleState]
  have a: "\<forall>k < 2. hid (habits exampleState ! k) = ''h1'' \<longrightarrow>
      habits (switchMode ''h1'' Timer exampleState) ! k =
        (habits exampleState ! k)\<lparr>selectedMode := Timer, elapsed := 0, isRunning := False\<rparr>"
    and b: "\<forall>k < 2. hid (habits exampleState ! k) \<noteq> ''h1'' \<longrightarrow>
      habits (switchMode ''h1'' Timer exampleState) ! k = habits exampleState ! k"
    and c: "history (switchMode ''h1'' Timer exampleState) = history exampleState"
    unfolding l by blast+
  from a h i have a0: "habits (switchMode ''h1'' Timer exampleState) ! 0 =
      reading\<lparr>selectedMode := Timer, elapsed := 0, isRunning := False\<rparr>"
    by (metis zero_less_numeral)
  from b h i have b1: "habits (switchMode ''h1'' Timer exampleState) ! 1 = meditate"
    by (metis one_less_numeral_iff semiring_norm(76))
  from a0 b1 c h show ?thesis
    by simp
qed

section \<open>The streak\<close>

text \<open>What \<^verbatim>\<open>saveSession\<close> does to the habit at a position, and the two dialogs as calls of it.\<close>

lemma saveSession_nth_habit:
  "k < length (habits st) \<Longrightarrow>
   habits (saveSession env nm dur md col timestamp st) ! k =
     bumpStreak nm dur (getTodayString env) (habits st ! k)"
  by (simp add: saveSession_habits)

lemma saveManualLog_valid:
  assumes "find (\<lambda>h. Some (hid h) = i) (habits st) = Some habit"
    and "parseInt mins = Some m" and "0 < m" and "datePattern date"
  shows "saveManualLog env i mins date st =
           (case splitDate date of
              (y, mo, d) \<Rightarrow>
                Inr (saveSession env (name habit) (m * 60) Manual (color habit)
                      (Some (localDateMs env y mo d)) st))"
  using assms by (simp add: saveManualLog_def)

lemma saveAdjustment_valid:
  "parseInt mins = Some m \<Longrightarrow> 0 < m \<Longrightarrow>
   saveAdjustment env nm col mins t st =
     saveSession env nm (if t = Add then m * 60 else - (m * 60)) Adjustment col None st"
  by (simp add: saveAdjustment_def Let_def)

text \<open>Readings of the example texts and dates.\<close>

lemma parseInt_examples:
  "parseInt ''5'' = Some 5" "parseInt ''30'' = Some 30" "parseInt ''0'' = Some 0"
  "parseInt ''20'' = Some 20"
  by code_simp+

lemma date_examples:
  "datePattern ''2024-01-01''" "splitDate ''2024-01-01'' = (2024, 1, 1)"
  "localDateMs exampleEnv 2024 1 1 = 1704063600000"
  by code_simp+

text \<open>
  Claim C3 as stated fails for a manual log, whose date is typed in. On 2024-03-05 a
  log of 30 minutes is entered for 2024-01-01, the date the habit was last logged on.
  The record is dated 2024-01-01 at local midnight, the completion's date equals the
  last date, and yet the streak goes from 1 to 2 and the last date becomes 2024-03-05,
  the day of the entry.
\<close>

theorem backdated_manual_log_counterexample:
  "lastLogDate (habits januaryState ! 0) = ''2024-01-01'' \<and>
   streak (habits januaryState ! 0) = 1 \<and>
   (\<exists>s r. saveManualLog exampleEnv (Some ''h1'') ''30'' ''2024-01-01'' januaryState = Inr s \<and>
      history s = r # history januaryState \<and> duration r = 1800 \<and>
      timestampMs r = localDateMs exampleEnv 2024 1 1 \<and>
      streak (habits s ! 0) = 2 \<and> lastLogDate (habits s ! 0) = ''2024-03-05'')"
proof -
  have f: "find (\<lambda>h. Some (hid h) = Some ''h1'') (habits januaryState) = Some readingJan"
    by (simp add: januaryState_def readingJan_def readingIdle_def reading_def)
  have m: "(0::int) < 30" by simp
  note eq = saveManualLog_valid [OF f parseInt_examples(2) m date_examples(1), of exampleEnv]
  have v: "name readingJan = ''Reading''" "lastLogDate readingJan = ''2024-01-01''"
    "streak readingJan = 1" "habits januaryState ! 0 = readingJan"
    "length (habits januaryState) = 1"
    by (simp_all add: januaryState_def readingJan_def readingIdle_def reading_def)
  have t: "localDateMs exampleEnv 2024 1 1 \<noteq> 0"
    by (simp add: date_examples)
  show ?thesis
    by (simp add: eq date_examples(2) v saveSession_history saveSession_nth_habit
        bumpStreak_def getTodayString_exampleEnv orNow_def t)
qed

text \<open>
  Claim C3 as amended. A completion of positive duration is compared with TODAY, the
  local date on which it is logged, whatever instant the record itself is dated at: a
  habit of the record's name keeps its streak when its last log date is today and gains
  exactly 1 otherwise, whatever the gap, and its last log date becomes today. A manual
  log for any date is such a completion. A record of negative duration leaves every
  habit as it was.
\<close>

theorem streak_counts_logging_days:
  assumes "k < length (habits st)"
  shows "(0 < dur \<and> name (habits st ! k) = nm \<longrightarrow>
            streak (habits (saveSession env nm dur md col timestamp st) ! k) =
              (if lastLogDate (habits st ! k) = getTodayString env then streak (habits st ! k)
               else streak (habits st ! k) + 1) \<and>
            lastLogDate (habits (saveSession env nm dur md col timestamp st) ! k) =
              getTodayString env) \<and>
         (dur < 0 \<longrightarrow> habits (saveSession env nm dur md col timestamp st) = habits st) \<and>
         (find (\<lambda>h. Some (hid h) = i) (habits st) = Some habit \<and> parseInt mins = Some m \<and>
          0 < m \<and> datePattern date \<and> name (habits st ! k) = name habit \<longrightarrow>
            (\<exists>s. saveManualLog env i mins date st = Inr s \<and>
                 streak (habits s ! k) =
                   (if lastLogDate (habits st ! k) = getTodayString env then streak (habits st ! k)
                    else streak (habits st ! k) + 1) \<and>
                 lastLogDate (habits s ! k) = getTodayString env))"
proof -
  have pos: "0 < d \<Longrightarrow> name (habits st ! k) = n \<Longrightarrow>
      streak (habits (saveSession env n d mo c ts st) ! k) =
        (if lastLogDate (habits st ! k) = getTodayString env then streak (habits st ! k)
         else streak (habits st ! k) + 1) \<and>
      lastLogDate (habits (saveSession env n d mo c ts st) ! k) = getTodayString env"
    for d n mo c ts
    using assms by (simp add: saveSession_nth_habit bumpStreak_def)
  have neg: "dur < 0 \<longrightarrow> habits (saveSession env nm dur md col timestamp st) = habits st"
    by (simp add: saveSession_habits bumpStreak_nonpos map_idI)
  have manual: "find (\<lambda>h. Some (hid h) = i) (habits st) = Some habit \<and> parseInt mins = Some m \<and>
          0 < m \<and> datePattern date \<and> name (habits st ! k) = name habit \<longrightarrow>
            (\<exists>s. saveManualLog env i mins date st = Inr s \<and>
                 streak (habits s ! k) =
                   (if lastLogDate (habits st ! k) = getTodayString env then streak (habits st ! k)
                    else streak (habits st ! k) + 1) \<and>
                 lastLogDate (habits s ! k) = getTodayString env)"
  proof
    assume a: "find (\<lambda>h. Some (hid h) = i) (habits st) = Some habit \<and> parseInt mins = Some m \<and>
          0 < m \<and> datePattern date \<and> name (habits st ! k) = name habit"
    then have m60: "0 < m * 60" by simp
    obtain y mo d where sp: "splitDate date = (y, mo, d)"
      by (cases "splitDate date") auto
    from a have eq: "saveManualLog env i mins date st =
        Inr (saveSession env (name habit) (m * 60) Manual (color habit)
              (Some (localDateMs env y mo d)) st)"
      by (simp add: saveManualLog_valid sp)
    from a pos [OF m60, of "name habit" Manual "color habit" "Some (localDateMs env y mo d)"] eq
    show "\<exists>s. saveManualLog env i mins date st = Inr s \<and>
                 streak (habits s ! k) =
                   (if lastLogDate (habits st ! k) = getTodayString env then streak (habits st ! k)
                    else streak (habits st ! k) + 1) \<and>
                 lastLogDate (habits s ! k) = getTodayString env"
      by simp
  qed
  from pos [of dur nm md col timestamp] neg manual show ?thesis
    by blast
qed

theorem streak_counts_logging_days_witness:
  "streak (habits (saveSession exampleEnv ''Reading'' 1800 Manual ''#3498db''
      (Some 1704063600000) januaryState) ! 0) = 2 \<and>
   lastLogDate (habits (saveSession exampleEnv ''Reading'' 1800 Manual ''#3498db''
      (Some 1704063600000) januaryState) ! 0) = ''2024-03-05'' \<and>
   habits (saveSession exampleEnv ''Reading'' (- 300) Adjustment ''#3498db'' None januaryState) =
     [readingJan]"
proof -
  have k: "0 < length (habits januaryState)"
    by (simp add: januaryState_def)
  have v: "name (habits januaryState ! 0) = ''Reading''"
    "lastLogDate (habits januaryState ! 0) = ''2024-01-01''"
    "streak (habits januaryState ! 0) = 1" "habits januaryState = [readingJan]"
    by (simp_all add: januaryState_def readingJan_def readingIdle_def reading_def)
  from streak_counts_logging_days [OF k, of 1800 "''Reading''" exampleEnv Manual "''#3498db''"
      "Some 1704063600000"]
  have a: "streak (habits (saveSession exampleEnv ''Reading'' 1800 Manual ''#3498db''
      (Some 1704063600000) januaryState) ! 0) = 2 \<and>
   lastLogDate (habits (saveSession exampleEnv ''Reading'' 1800 Manual ''#3498db''
      (Some 1704063600000) januaryState) ! 0) = ''2024-03-05''"
    by (simp add: v(1,2,3) getTodayString_exampleEnv)
  from streak_counts_logging_days [OF k, of "- 300" "''Reading''" exampleEnv Adjustment
      "''#3498db''" None]
  have b: "habits (saveSession exampleEnv ''Reading'' (- 300) Adjustment ''#3498db'' None
      januaryState) = [readingJan]"
    by (simp add: v(4))
  from a b show ?thesis
    by simp
qed

section \<open>Adjustments and the streak\<close>

text \<open>
  Claim C10. An adjustment of type "add" with a positive number of minutes treats every
  habit of the name like a completed session: when the habit's last log date is not
  today, its streak grows by 1 and its last log date becomes today; when it is today,
  both stay. The same holds for a manual log of the habit, for any date typed in. An
  adjustment of type "remove" leaves the habits as they were: only the negative records
  are streak-neutral.
\<close>

theorem positive_adjustment_bumps_streak:
  assumes "parseInt adjustMinutes = Some mins" and "0 < mins"
    and "k < length (habits st)" and "name (habits st ! k) = adjustHabitName"
  shows "(lastLogDate (habits st ! k) \<noteq> getTodayString env \<longrightarrow>
            streak (habits (saveAdjustment env adjustHabitName col adjustMinutes Add st) ! k) =
              streak (habits st ! k) + 1 \<and>
            lastLogDate (habits (saveAdjustment env adjustHabitName col adjustMinutes Add st) ! k) =
              getTodayString env) \<and>
         (lastLogDate (habits st ! k) = getTodayString env \<longrightarrow>
            streak (habits (saveAdjustment env adjustHabitName col adjustMinutes Add st) ! k) =
              streak (habits st ! k) \<and>
            lastLogDate (habits (saveAdjustment env adjustHabitName col adjustMinutes Add st) ! k) =
              getTodayString env) \<and>
         habits (saveAdjustment env adjustHabitName col adjustMinutes Remove st) = habits st \<and>
         (find (\<lambda>h. Some (hid h) = i) (habits st) = Some (habits st ! k) \<and> datePattern date \<and>
          lastLogDate (habits st ! k) \<noteq> getTodayString env \<longrightarrow>
            (\<exists>s. saveManualLog env i adjustMinutes date st = Inr s \<and>
                 streak (habits s ! k) = streak (habits st ! k) + 1 \<and>
                 lastLogDate (habits s ! k) = getTodayString env))"
proof -
  have m60: "0 < mins * 60" "mins * 60 \<noteq> 0" "- (mins * 60) \<le> 0"
    using assms(2) by simp_all
  have add: "habits (saveAdjustment env adjustHabitName col adjustMinutes Add st) ! k =
      (habits st ! k)\<lparr>streak := (if lastLogDate (habits st ! k) = getTodayString env
                                  then streak (habits st ! k) else streak (habits st ! k) + 1),
                       lastLogDate := getTodayString env\<rparr>"
    using assms m60
    by (simp add: saveAdjustment_valid saveSession_nth_habit bumpStreak_def)
  have remove: "habits (saveAdjustment env adjustHabitName col adjustMinutes Remove st) = habits st"
    using assms(1,2) m60(3)
    by (simp add: saveAdjustment_valid saveSession_habits bumpStreak_nonpos map_idI)
  have manual: "find (\<lambda>h. Some (hid h) = i) (habits st) = Some (habits st ! k) \<and>
      datePattern date \<and> lastLogDate (habits st ! k) \<noteq> getTodayString env \<longrightarrow>
        (\<exists>s. saveManualLog env i adjustMinutes date st = Inr s \<and>
             streak (habits s ! k) = streak (habits st ! k) + 1 \<and>
             lastLogDate (habits s ! k) = getTodayString env)"
  proof
    assume a: "find (\<lambda>h. Some (hid h) = i) (habits st) = Some (habits st ! k) \<and>
      datePattern date \<and> lastLogDate (habits st ! k) \<noteq> getTodayString env"
    obtain y mo d where sp: "splitDate date = (y, mo, d)"
      by (cases "splitDate date") auto
    from a assms(1,2) have eq: "saveManualLog env i adjustMinutes date st =
        Inr (saveSession env (name (habits st ! k)) (mins * 60) Manual (color (habits st ! k))
              (Some (localDateMs env y mo d)) st)"
      by (simp add: saveManualLog_valid sp)
    from a assms(3) m60(1) show "\<exists>s. saveManualLog env i adjustMinutes date st = Inr s \<and>
             streak (habits s ! k) = streak (habits st ! k) + 1 \<and>
             lastLogDate (habits s ! k) = getTodayString env"
      by (simp add: eq saveSession_nth_habit bumpStreak_def)
  qed
  from add remove manual show ?thesis
    by simp
qed

text \<open>
  In the example, 5 minutes added to "Reading", never logged before: the streak becomes
  1 and the last log date today; 5 minutes removed change neither.
\<close>

theorem positive_adjustment_bumps_streak_witness:
  "streak (habits (saveAdjustment exampleEnv ''Reading'' ''#3498db'' ''5'' Add exampleState) ! 0) = 1 \<and>
   lastLogDate (habits (saveAdjustment exampleEnv ''Reading'' ''#3498db'' ''5'' Add exampleState) ! 0) =
     ''2024-03-05'' \<and>
   habits (saveAdjustment exampleEnv ''Reading'' ''#3498db'' ''5'' Remove exampleState) =
     [reading, meditate]"
proof -
  have m: "(0::int) < 5" by simp
  have k: "0 < length (habits exampleState)"
    by (simp add: exampleState_def)
  have n: "name (habits exampleState ! 0) = ''Reading''"
    by (simp add: exampleState_def reading_def)
  have v: "lastLogDate (habits exampleState ! 0) = []" "streak (habits exampleState ! 0) = 0"
    "habits exampleState = [reading, meditate]"
    by (simp_all add: exampleState_def reading_def)
  from positive_adjustment_bumps_streak [OF parseInt_examples(1) m k n, of exampleEnv "''#3498db''"]
  show ?thesis
    by (simp add: v(1,2) getTodayString_exampleEnv) (simp add: v(3))
qed

section \<open>Goal progress\<close>

lemma foldl_add_duration:
  "foldl (\<lambda>acc curr. acc + duration curr) a xs = a + sum_list (map duration xs)"
  by (induction xs arbitrary: a) simp_all

text \<open>\<^verbatim>\<open>saveSession\<close> keeps the id and the name of every habit, so the lookup by id finds
  a habit of the same name afterwards.\<close>

lemma find_hid_bumpStreak:
  "find (\<lambda>h. hid h = i) (map (bumpStreak nm dur dateStr) hs) =
     map_option (bumpStreak nm dur dateStr) (find (\<lambda>h. hid h = i) hs)"
  by (induction hs) (simp_all add: bumpStreak_def)

lemma name_bumpStreak: "name (bumpStreak nm dur dateStr h) = name h"
  by (simp add: bumpStreak_def)

lemma find_hid_saveSession:
  "find (\<lambda>h. hid h = i) (habits st) = Some habit \<Longrightarrow>
   \<exists>habit'. find (\<lambda>h. hid h = i) (habits (saveSession env nm dur md col timestamp st)) = Some habit' \<and>
            name habit' = name habit"
  by (simp add: saveSession_habits find_hid_bumpStreak name_bumpStreak)

lemma getGoalProgress_sum:
  "find (\<lambda>h. hid h = i) (habits st) = Some habit \<Longrightarrow>
   getGoalProgress env st i goal =
     sum_list (map duration (filter
       (\<lambda>item. habitName item = name habit \<and> inGoalWindow env goal (timestampMs item))
       (history st))) div 60"
proof -
  assume f: "find (\<lambda>h. hid h = i) (habits st) = Some habit"
  then have "goalFilter env st i goal =
      (\<lambda>item. habitName item = name habit \<and> inGoalWindow env goal (timestampMs item))"
    by (auto simp: goalFilter_def fun_eq_iff)
  then show ?thesis
    by (simp add: getGoalProgress_def Let_def foldl_add_duration)
qed

text \<open>The instant of a handler is inside the rolling windows and inside today.\<close>

lemma now_in_window:
  "period goal \<noteq> Custom \<Longrightarrow> inGoalWindow env goal (now env)"
proof -
  assume "period goal \<noteq> Custom"
  moreover have "0 \<le> (now env + utcOffset env) mod oneDay"
    by (simp add: oneDay_def)
  ultimately show ?thesis
    by (cases "period goal") (simp_all add: inGoalWindow_def startOfToday_def oneDay_def)
qed

lemma future_date_examples:
  "datePattern ''2024-03-06''" "splitDate ''2024-03-06'' = (2024, 3, 6)"
  "localDateMs exampleEnv 2024 3 6 = 1709679600000"
  by code_simp+

text \<open>
  Claim C5 as stated fails when "the goal's window" is the window the specification
  gives, which ends at now. On 2024-03-05 a manual log of 30 minutes is entered for
  2024-03-06. Its record is dated after now, outside the weekly window of the
  specification, whose progress is 0; the source counts it, and the progress is 30.
\<close>

theorem future_record_counted_counterexample:
  "\<exists>s. saveManualLog exampleEnv (Some ''h1'') ''30'' ''2024-03-06'' freshState = Inr s \<and>
       map duration (history s) = [1800] \<and>
       map timestampMs (history s) = [1709679600000] \<and>
       now exampleEnv < 1709679600000 \<and>
       period readingGoal = Weekly \<and>
       specGoalProgress exampleEnv s ''h1'' readingGoal = 0 \<and>
       getGoalProgress exampleEnv s ''h1'' readingGoal = 30"
proof -
  have f: "find (\<lambda>h. Some (hid h) = Some ''h1'') (habits freshState) = Some readingIdle"
    by (simp add: freshState_def readingIdle_def reading_def)
  have m: "(0::int) < 30" by simp
  note eq = saveManualLog_valid [OF f parseInt_examples(2) m future_date_examples(1), of exampleEnv]
  let ?s = "saveSession exampleEnv (name readingIdle) (30 * 60) Manual (color readingIdle)
      (Some (localDateMs exampleEnv 2024 3 6)) freshState"
  have g: "find (\<lambda>h. hid h = ''h1'') (habits freshState) = Some readingIdle"
    by (simp add: freshState_def readingIdle_def reading_def)
  from find_hid_saveSession [OF g] obtain h'
    where h': "find (\<lambda>h. hid h = ''h1'') (habits ?s) = Some h'" "name h' = name readingIdle"
    by blast
  have n: "name readingIdle = ''Reading''"
    by (simp add: readingIdle_def reading_def)
  have hist: "history ?s =
      [\<lparr>item_id = string_of_int (now exampleEnv) @ randomText exampleEnv, habitName = ''Reading'',
        duration = 1800, mode = Manual, timestampStr = toLocaleString exampleEnv 1709679600000,
        timestampMs = 1709679600000, item_color = color readingIdle\<rparr>]"
    by (simp add: saveSession_history orNow_def future_date_examples n freshState_def)
  have p: "period readingGoal = Weekly" and t: "now exampleEnv = 1709636400000"
    by (simp_all add: readingGoal_def exampleEnv_def)
  have code: "getGoalProgress exampleEnv ?s ''h1'' readingGoal = 30"
    unfolding getGoalProgress_sum [OF h'(1)] hist
    by (simp add: h'(2) n inGoalWindow_def p t oneDay_def)
  have spec: "specGoalProgress exampleEnv ?s ''h1'' readingGoal = 0"
    unfolding specGoalProgress_def h'(1) hist
    by (simp add: h'(2) n specWindow_def p t)
  from code spec hist p t show ?thesis
    by (simp add: eq future_date_examples(2))
qed

text \<open>
  Claim C5 as amended, for a daily, weekly or monthly goal. With \<open>habit\<close> the habit that
  the id finds, the progress is the sum of the signed durations of the ledger records
  of the habit's current name that pass the test of the period, divided by 60 and
  rounded down. The tests are: daily, the record is dated at or after the local
  midnight that opens today; weekly, now minus the record's instant is less than 7
  days; monthly, it is less than 30 days. No test has an upper end at now, so a
  record dated in the future counts, and a record exactly 7 (or 30) days old does not.
  Scenario: a session of 20 minutes and then an adjustment removing 5 minutes, logged
  at instants that pass the test, raise the sum by 900 seconds, so that from a sum of 0
  the progress is 15.
\<close>

theorem goal_progress_is_floor_of_signed_sum:
  assumes "find (\<lambda>h. hid h = i) (habits st) = Some habit" and "period goal \<noteq> Custom"
  shows "(let counted = (\<lambda>ts.
                 if period goal = Daily
                 then now env - (now env + utcOffset env) mod 86400000 \<le> ts
                 else if period goal = Weekly then now env - ts < 7 * 86400000
                 else now env - ts < 30 * 86400000);
              total = sum_list (map duration (filter
                 (\<lambda>item. habitName item = name habit \<and> counted (timestampMs item))
                 (history st)))
          in getGoalProgress env st i goal = total div 60 \<and>
             60 * getGoalProgress env st i goal \<le> total \<and>
             total < 60 * getGoalProgress env st i goal + 60 \<and>
             (counted (now env1) \<and> counted (now env2) \<longrightarrow>
                getGoalProgress env
                  (saveAdjustment env2 (name habit) col2 ''5'' Remove
                     (saveSession env1 (name habit) 1200 md col1 None st)) i goal =
                  (total + 900) div 60))"
proof -
  define counted where "counted = (\<lambda>ts.
      if period goal = Daily
      then now env - (now env + utcOffset env) mod 86400000 \<le> ts
      else if period goal = Weekly then now env - ts < 7 * 86400000
      else now env - ts < 30 * 86400000)"
  define total where "total = sum_list (map duration (filter
      (\<lambda>item. habitName item = name habit \<and> counted (timestampMs item)) (history st)))"
  have win: "inGoalWindow env goal = counted"
    using assms(2)
    by (cases "period goal")
      (simp_all add: fun_eq_iff inGoalWindow_def counted_def startOfToday_def oneDay_def)
  have eq: "getGoalProgress env st i goal = total div 60"
    unfolding total_def by (simp add: getGoalProgress_sum [OF assms(1)] win)
  have lo: "60 * getGoalProgress env st i goal \<le> total"
    unfolding eq by presburger
  have hi: "total < 60 * getGoalProgress env st i goal + 60"
    unfolding eq by presburger
  have scen: "counted (now env1) \<and> counted (now env2) \<longrightarrow>
      getGoalProgress env
        (saveAdjustment env2 (name habit) col2 ''5'' Remove
           (saveSession env1 (name habit) 1200 md col1 None st)) i goal = (total + 900) div 60"
  proof
    assume w: "counted (now env1) \<and> counted (now env2)"
    let ?s1 = "saveSession env1 (name habit) 1200 md col1 None st"
    let ?s2 = "saveSession env2 (name habit) (- 300) Adjustment col2 None ?s1"
    have adj: "saveAdjustment env2 (name habit) col2 ''5'' Remove ?s1 = ?s2"
      by (simp add: saveAdjustment_valid [OF parseInt_examples(1)])
    from find_hid_saveSession [OF assms(1)] obtain h1
      where h1: "find (\<lambda>h. hid h = i) (habits ?s1) = Some h1" "name h1 = name habit"
      by blast
    from find_hid_saveSession [OF h1(1)] obtain h2
      where h2: "find (\<lambda>h. hid h = i) (habits ?s2) = Some h2" "name h2 = name h1"
      by blast
    have hist: "history ?s2 =
        \<lparr>item_id = string_of_int (now env2) @ randomText env2, habitName = name habit,
         duration = - 300, mode = Adjustment, timestampStr = toLocaleString env2 (now env2),
         timestampMs = now env2, item_color = col2\<rparr> #
        \<lparr>item_id = string_of_int (now env1) @ randomText env1, habitName = name habit,
         duration = 1200, mode = md, timestampStr = toLocaleString env1 (now env1),
         timestampMs = now env1, item_color = col1\<rparr> # history st"
      by (simp add: saveSession_history orNow_def)
    show "getGoalProgress env
        (saveAdjustment env2 (name habit) col2 ''5'' Remove ?s1) i goal = (total + 900) div 60"
      unfolding adj getGoalProgress_sum [OF h2(1)] hist win total_def
      using w by (simp add: h2(2) h1(2))
  qed
  from eq lo hi scen show ?thesis
    unfolding Let_def counted_def [symmetric] total_def [symmetric]
    by blast
qed

text \<open>
  The scenario on the habit "Reading" with an empty ledger and a weekly goal gives 15
  minutes. On the ledger around the edges of the weekly window the progress is 50
  minutes: the record dated tomorrow (1800 s) and the session of the day before
  (1200 s) count, the record exactly seven days old and the record of the other habit
  do not.
\<close>

theorem goal_progress_is_floor_of_signed_sum_witness:
  "getGoalProgress exampleEnv
     (saveAdjustment exampleEnv ''Reading'' ''#3498db'' ''5'' Remove
        (saveSession exampleEnv ''Reading'' 1200 (Timed Stopwatch) ''#3498db'' None freshState))
     ''h1'' readingGoal = 15 \<and>
   getGoalProgress exampleEnv windowState ''h1'' readingGoal = 50"
proof -
  have f1: "find (\<lambda>h. hid h = ''h1'') (habits freshState) = Some readingIdle"
    by (simp add: freshState_def readingIdle_def reading_def)
  have f2: "find (\<lambda>h. hid h = ''h1'') (habits windowState) = Some reading"
    by (simp add: windowState_def exampleState_def reading_def)
  have p: "period readingGoal \<noteq> Custom" "period readingGoal = Weekly"
    by (simp_all add: readingGoal_def)
  have n: "name readingIdle = ''Reading''" "name reading = ''Reading''"
    by (simp_all add: readingIdle_def reading_def)
  have t: "now exampleEnv = 1709636400000"
    by (simp add: exampleEnv_def)
  have h1: "history freshState = []"
    by (simp add: freshState_def)
  have h2: "history windowState = [futureRecord, otherRecord, oldRecord, weekOldRecord]"
    by (simp add: windowState_def)
  have r: "habitName futureRecord = ''Reading''" "timestampMs futureRecord = 1709679600000"
    "duration futureRecord = 1800" "habitName otherRecord = ''Meditate''"
    "habitName oldRecord = ''Reading''" "timestampMs oldRecord = 1709550000000"
    "duration oldRecord = 1200" "habitName weekOldRecord = ''Reading''"
    "timestampMs weekOldRecord = 1709031600000"
    by (simp_all add: futureRecord_def otherRecord_def oldRecord_def weekOldRecord_def)
  from goal_progress_is_floor_of_signed_sum [OF f1 p(1), of exampleEnv exampleEnv exampleEnv
      "''#3498db''" "Timed Stopwatch" "''#3498db''"]
  have a: "getGoalProgress exampleEnv
     (saveAdjustment exampleEnv ''Reading'' ''#3498db'' ''5'' Remove
        (saveSession exampleEnv ''Reading'' 1200 (Timed Stopwatch) ''#3498db'' None freshState))
     ''h1'' readingGoal = 15"
    by (simp add: Let_def p(2) n h1)
  from goal_progress_is_floor_of_signed_sum [OF f2 p(1), of exampleEnv exampleEnv exampleEnv]
  have b: "getGoalProgress exampleEnv windowState ''h1'' readingGoal = 50"
    by (simp add: Let_def p(2) n h2 r t)
  from a b show ?thesis
    by simp
qed

section \<open>The window of a custom period\<close>

text \<open>
  The window that \<^verbatim>\<open>getGoalProgress\<close> computes for a custom period runs from midnight
  UTC of the start date to midnight UTC of the end date plus one day, on every device:
  it does not depend on the device's zone.
\<close>

lemma custom_window_utc:
  assumes "period goal = Custom" and "startDate goal = Some s" and "endDate goal = Some e"
    and "parseDateUTC s = Some start" and "parseDateUTC e = Some end'"
  shows "inGoalWindow env goal ts = (start \<le> ts \<and> ts < end' + oneDay)"
proof -
  from assms(4) have "s \<noteq> []"
    by (auto simp: parseDateUTC_def datePattern_def split: if_splits)
  moreover from assms(5) have "e \<noteq> []"
    by (auto simp: parseDateUTC_def datePattern_def split: if_splits)
  ultimately show ?thesis
    using assms by (simp add: inGoalWindow_def truthy_def)
qed

lemma custom_dates:
  "parseDateUTC ''2024-01-01'' = Some 1704067200000"
  "parseDateUTC ''2024-01-03'' = Some 1704240000000"
  by code_simp+

lemma customGoal_window:
  "inGoalWindow env customGoal ts = (1704067200000 \<le> ts \<and> ts < 1704326400000)"
proof -
  have "inGoalWindow env customGoal ts =
      (1704067200000 \<le> ts \<and> ts < 1704240000000 + oneDay)"
    by (rule custom_window_utc [OF _ _ _ custom_dates]) (simp_all add: customGoal_def)
  then show ?thesis
    by (simp add: oneDay_def)
qed

text \<open>
  Local instants of the scenario on the three devices. Local midnight is the instant
  that \<^verbatim>\<open>saveManualLog\<close> gives a record of that date.
\<close>

lemma local_instants:
  "localDateMs exampleEnv 2024 1 4 = 1704322800000"
  "localDateMs exampleEnv 2024 1 3 = 1704236400000"
  "localDateMs utcEnv 2024 1 4 = 1704326400000"
  "localDateMs utcEnv 2024 1 3 = 1704240000000"
  "localDateMs westEnv 2024 1 4 = 1704344400000"
  "localDateMs westEnv 2024 1 3 = 1704258000000"
  by code_simp+

text \<open>
  Claim C4 on devices away from UTC, for the goal from 2024-01-01 to 2024-01-03. One
  hour east of UTC the record dated 2024-01-04 00:00 local time is inside the window,
  and a record at local midnight of the start date, 2024-01-01, is outside it. Five
  hours west of UTC the record dated 2024-01-03 23:00 local time is outside the window.
  The claim has the first excluded and the other two included.
\<close>

theorem custom_window_off_utc:
  "utcOffset exampleEnv = 3600000 \<and>
   inGoalWindow exampleEnv customGoal (localDateMs exampleEnv 2024 1 4) \<and>
   \<not> inGoalWindow exampleEnv customGoal (localDateMs exampleEnv 2024 1 1) \<and>
   utcOffset westEnv = - 18000000 \<and>
   \<not> inGoalWindow westEnv customGoal (localDateMs westEnv 2024 1 3 + 23 * 3600000)"
proof -
  have zone: "utcOffset exampleEnv = 3600000" "utcOffset westEnv = - 18000000"
    by (simp_all add: exampleEnv_def westEnv_def)
  have east: "inGoalWindow exampleEnv customGoal (localDateMs exampleEnv 2024 1 4) \<and>
      \<not> inGoalWindow exampleEnv customGoal (localDateMs exampleEnv 2024 1 1)"
    by (simp add: customGoal_window local_instants date_examples)
  have west: "\<not> inGoalWindow westEnv customGoal (localDateMs westEnv 2024 1 3 + 23 * 3600000)"
    by (simp add: customGoal_window local_instants)
  from zone east west show ?thesis
    by simp
qed

text \<open>On a device on UTC the two records of the scenario fall as the claim says.\<close>

lemma custom_window_on_utc:
  "inGoalWindow utcEnv customGoal (localDateMs utcEnv 2024 1 3 + 23 * 3600000) \<and>
   \<not> inGoalWindow utcEnv customGoal (localDateMs utcEnv 2024 1 4)"
  by (simp add: customGoal_window local_instants)

text \<open>
  The two paths of the source meet in the progress of the goal: one hour east of UTC, a
  manual log of 30 minutes for the start date of the goal, entered through
  \<^verbatim>\<open>saveManualLog\<close>, counts nothing towards the goal.
\<close>

lemma manual_log_on_start_date_not_counted:
  "\<exists>s. saveManualLog exampleEnv (Some ''h1'') ''30'' ''2024-01-01'' freshState = Inr s \<and>
       map duration (history s) = [1800] \<and>
       getGoalProgress exampleEnv s ''h1'' customGoal = 0"
proof -
  have f: "find (\<lambda>h. Some (hid h) = Some ''h1'') (habits freshState) = Some readingIdle"
    by (simp add: freshState_def readingIdle_def reading_def)
  have m: "(0::int) < 30" by simp
  note eq = saveManualLog_valid [OF f parseInt_examples(2) m date_examples(1), of exampleEnv]
  let ?s = "saveSession exampleEnv (name readingIdle) (30 * 60) Manual (color readingIdle)
      (Some (localDateMs exampleEnv 2024 1 1)) freshState"
  have g: "find (\<lambda>h. hid h = ''h1'') (habits freshState) = Some readingIdle"
    by (simp add: freshState_def readingIdle_def reading_def)
  from find_hid_saveSession [OF g] obtain h'
    where h': "find (\<lambda>h. hid h = ''h1'') (habits ?s) = Some h'" "name h' = name readingIdle"
    by blast
  have hist: "map duration (history ?s) = [1800]" "map timestampMs (history ?s) = [1704063600000]"
    by (simp_all add: saveSession_history orNow_def date_examples freshState_def)
  have "getGoalProgress exampleEnv ?s ''h1'' customGoal = 0"
    unfolding getGoalProgress_sum [OF h'(1)]
    by (simp add: saveSession_history orNow_def date_examples freshState_def customGoal_window)
  with hist show ?thesis
    by (simp add: eq date_examples(2))
qed

section \<open>No record of duration 0\<close>














end
